theory Spec2Isabelle
  imports Main "HOL-Library.Multiset" "HOL-Library.Sublist"
begin

section \<open>Strings, bytes and the library functions the script calls\<close>

text \<open>
  Python \<open>bytes\<close> are lists of 8-bit characters (\<open>string\<close>); Python \<open>str\<close> values are
  lists of Unicode code points (\<open>nat list\<close>), because slicing and \<open>len\<close> count code
  points and the icon glyphs lie outside the 8-bit range.
\<close>

type_synonym bytes = string
type_synonym str = "nat list"

definition ustr :: "string \<Rightarrow> str" where
  "ustr s = map of_char s"

text \<open>
  The exceptions of the model. \<open>LibraryError\<close> is an exception raised inside a library call
  that the model takes as a parameter; \<open>Unmodelled\<close> marks an argument outside the fragment
  of a library function that the model defines.
\<close>

datatype error = ValueError | IndexError | UnicodeDecodeError | LibraryError | Unmodelled

text \<open>\<open>bytes.isspace\<close>: the six ASCII whitespace bytes.\<close>

definition bytes_isspace :: "nat \<Rightarrow> bool" where
  "bytes_isspace c = (c = 32 \<or> (9 \<le> c \<and> c \<le> 13))"

text \<open>\<open>str.isspace\<close> for one code point: the Unicode whitespace characters.\<close>

definition str_isspace :: "nat \<Rightarrow> bool" where
  "str_isspace c =
     (c = 32 \<or> (9 \<le> c \<and> c \<le> 13) \<or> (28 \<le> c \<and> c \<le> 31) \<or> c = 133 \<or> c = 160
      \<or> c = 5760 \<or> (8192 \<le> c \<and> c \<le> 8202) \<or> c = 8232 \<or> c = 8233 \<or> c = 8239
      \<or> c = 8287 \<or> c = 12288)"

text \<open>
  \<open>x.split()\<close> without arguments: the maximal runs of non-whitespace, in order; the
  accumulator holds the current run, reversed.
\<close>

fun split_acc :: "('a \<Rightarrow> bool) \<Rightarrow> 'a list \<Rightarrow> 'a list \<Rightarrow> 'a list list" where
  "split_acc ws acc [] = (if acc = [] then [] else [rev acc])"
| "split_acc ws acc (c # cs) =
     (if ws c then (if acc = [] then split_acc ws [] cs else rev acc # split_acc ws [] cs)
      else split_acc ws (c # acc) cs)"

definition bytes_split :: "bytes \<Rightarrow> bytes list" where
  "bytes_split b = split_acc (\<lambda>c. bytes_isspace (of_char c)) [] b"

definition str_split :: "str \<Rightarrow> str list" where
  "str_split s = split_acc str_isspace [] s"

text \<open>\<open>x.split(sep)\<close> for a one-character separator: always at least one field.\<close>

fun split_on_acc :: "'a \<Rightarrow> 'a list \<Rightarrow> 'a list \<Rightarrow> 'a list list" where
  "split_on_acc sep acc [] = [rev acc]"
| "split_on_acc sep acc (c # cs) =
     (if c = sep then rev acc # split_on_acc sep [] cs else split_on_acc sep (c # acc) cs)"

definition split_on :: "'a \<Rightarrow> 'a list \<Rightarrow> 'a list list" where
  "split_on sep s = split_on_acc sep [] s"

text \<open>\<open>sep.join(xs)\<close>.\<close>

fun join :: "'a list \<Rightarrow> 'a list list \<Rightarrow> 'a list" where
  "join sep [] = []"
| "join sep [x] = x"
| "join sep (x # y # ys) = x @ sep @ join sep (y # ys)"

text \<open>\<open>needle in hay\<close> on strings: a contiguous occurrence.\<close>

fun contains :: "'a list \<Rightarrow> 'a list \<Rightarrow> bool" where
  "contains needle [] = (needle = [])"
| "contains needle (c # cs) = (prefix needle (c # cs) \<or> contains needle cs)"

fun strip_prefix :: "'a list \<Rightarrow> 'a list \<Rightarrow> 'a list option" where
  "strip_prefix [] s = Some s"
| "strip_prefix (p # ps) [] = None"
| "strip_prefix (p # ps) (c # cs) = (if p = c then strip_prefix ps cs else None)"

text \<open>
  \<open>bytes.decode()\<close>: strict UTF-8. A malformed, overlong, surrogate or out-of-range
  sequence raises \<open>UnicodeDecodeError\<close> (\<open>None\<close> here). \<open>utf8_2\<close>, \<open>utf8_3\<close> and
  \<open>utf8_4\<close> give the code point of a sequence of two, three and four bytes from its lead
  byte and the bytes after it.
\<close>

definition utf8_cont :: "nat \<Rightarrow> bool" where
  "utf8_cont b = (128 \<le> b \<and> b < 192)"

definition utf8_2 :: "nat \<Rightarrow> nat list \<Rightarrow> nat option" where
  "utf8_2 b bs =
     (case bs of
        c1 # _ \<Rightarrow> if utf8_cont c1 then Some ((b - 192) * 64 + (c1 - 128)) else None
      | _ \<Rightarrow> None)"

definition utf8_3 :: "nat \<Rightarrow> nat list \<Rightarrow> nat option" where
  "utf8_3 b bs =
     (case bs of
        c1 # c2 # _ \<Rightarrow>
          (let cp = (b - 224) * 4096 + (c1 - 128) * 64 + (c2 - 128) in
           if utf8_cont c1 \<and> utf8_cont c2 \<and> 2048 \<le> cp \<and> \<not> (55296 \<le> cp \<and> cp \<le> 57343)
           then Some cp else None)
      | _ \<Rightarrow> None)"

definition utf8_4 :: "nat \<Rightarrow> nat list \<Rightarrow> nat option" where
  "utf8_4 b bs =
     (case bs of
        c1 # c2 # c3 # _ \<Rightarrow>
          (let cp = (b - 240) * 262144 + (c1 - 128) * 4096 + (c2 - 128) * 64 + (c3 - 128) in
           if utf8_cont c1 \<and> utf8_cont c2 \<and> utf8_cont c3 \<and> 65536 \<le> cp \<and> cp \<le> 1114111
           then Some cp else None)
      | _ \<Rightarrow> None)"

fun utf8_decode :: "nat list \<Rightarrow> str option" where
  "utf8_decode [] = Some []"
| "utf8_decode (b # bs) =
     (if b < 128 then map_option ((#) b) (utf8_decode bs)
      else if 194 \<le> b \<and> b < 224 then
        (case utf8_2 b bs of
           None \<Rightarrow> None
         | Some cp \<Rightarrow> map_option ((#) cp) (utf8_decode (drop 1 bs)))
      else if 224 \<le> b \<and> b < 240 then
        (case utf8_3 b bs of
           None \<Rightarrow> None
         | Some cp \<Rightarrow> map_option ((#) cp) (utf8_decode (drop 2 bs)))
      else if 240 \<le> b \<and> b < 245 then
        (case utf8_4 b bs of
           None \<Rightarrow> None
         | Some cp \<Rightarrow> map_option ((#) cp) (utf8_decode (drop 3 bs)))
      else None)"

definition decode :: "bytes \<Rightarrow> error + str" where
  "decode b = (case utf8_decode (map of_char b) of None \<Rightarrow> Inl UnicodeDecodeError | Some s \<Rightarrow> Inr s)"

text \<open>
  \<open>int(x)\<close> on a string, base ten: optional surrounding whitespace, an optional sign,
  then decimal digits, single underscores allowed between digits; more than 4300 digits (the
  interpreter's default limit, which counts neither sign, whitespace nor underscores), or
  anything else, raises \<open>ValueError\<close> (\<open>None\<close> here). For \<open>bytes\<close> the whitespace is the ASCII
  whitespace and the digits are the ASCII digits. For \<open>str\<close> the characters below 127 are read
  as in \<open>bytes\<close> (so the separators U+001C to U+001F are not whitespace here), a character
  from 127 on counts as whitespace when \<open>str.isspace\<close> holds of it, and as a digit when it is
  a decimal digit of Unicode 14: these come in runs of ten, and the table lists the zero of
  each run.
\<close>

definition unicode_zero_digits :: "nat list" where
  "unicode_zero_digits =
     [1632, 1776, 1984, 2406, 2534, 2662, 2790, 2918, 3046, 3174, 3302, 3430, 3558, 3664,
      3792, 3872, 4160, 4240, 6112, 6160, 6470, 6608, 6784, 6800, 6992, 7088, 7232, 7248,
      42528, 43216, 43264, 43472, 43504, 43600, 44016, 65296, 66720, 68912, 69734, 69872,
      69942, 70096, 70384, 70736, 70864, 71248, 71360, 71472, 71904, 72016, 72784, 73040,
      73120, 92768, 92864, 93008, 120782, 120792, 120802, 120812, 120822, 123200, 123632,
      125264, 130032]"

definition bytes_digit :: "nat \<Rightarrow> nat option" where
  "bytes_digit c = (if 48 \<le> c \<and> c \<le> 57 then Some (c - 48) else None)"

definition str_digit :: "nat \<Rightarrow> nat option" where
  "str_digit c =
     (if 48 \<le> c \<and> c \<le> 57 then Some (c - 48)
      else if c < 127 then None
      else (case find (\<lambda>z. z \<le> c \<and> c \<le> z + 9) unicode_zero_digits of
              None \<Rightarrow> None
            | Some z \<Rightarrow> Some (c - z)))"

definition int_str_isspace :: "nat \<Rightarrow> bool" where
  "int_str_isspace c = (bytes_isspace c \<or> (127 \<le> c \<and> str_isspace c))"

definition max_str_digits :: nat where
  "max_str_digits = 4300"

fun parse_digits :: "(nat \<Rightarrow> nat option) \<Rightarrow> nat \<Rightarrow> nat list \<Rightarrow> nat option" where
  "parse_digits digit acc [] = Some acc"
| "parse_digits digit acc [c] =
     (case digit c of None \<Rightarrow> None | Some v \<Rightarrow> Some (acc * 10 + v))"
| "parse_digits digit acc (c # d # cs) =
     (case digit c of
        Some v \<Rightarrow> parse_digits digit (acc * 10 + v) (d # cs)
      | None \<Rightarrow>
          if c = 95 then
            (case digit d of
               None \<Rightarrow> None
             | Some w \<Rightarrow> parse_digits digit (acc * 10 + w) cs)
          else None)"

definition strip :: "('a \<Rightarrow> bool) \<Rightarrow> 'a list \<Rightarrow> 'a list" where
  "strip ws s = rev (dropWhile ws (rev (dropWhile ws s)))"

definition parse_unsigned :: "(nat \<Rightarrow> nat option) \<Rightarrow> nat list \<Rightarrow> nat option" where
  "parse_unsigned digit s =
     (case s of
        [] \<Rightarrow> None
      | c # cs \<Rightarrow>
          (case digit c of
             None \<Rightarrow> None
           | Some v \<Rightarrow>
               if max_str_digits < length (filter (\<lambda>x. digit x \<noteq> None) s) then None
               else parse_digits digit v cs))"

definition py_int :: "(nat \<Rightarrow> bool) \<Rightarrow> (nat \<Rightarrow> nat option) \<Rightarrow> nat list \<Rightarrow> int option" where
  "py_int ws digit s =
     (case strip ws s of
        [] \<Rightarrow> None
      | c # cs \<Rightarrow>
          if c = 45 then map_option (\<lambda>v. - int v) (parse_unsigned digit cs)
          else if c = 43 then map_option int (parse_unsigned digit cs)
          else map_option int (parse_unsigned digit (c # cs)))"

definition int_of_bytes :: "bytes \<Rightarrow> int option" where
  "int_of_bytes b = py_int bytes_isspace bytes_digit (map of_char b)"

definition int_of_str :: "str \<Rightarrow> int option" where
  "int_of_str s = py_int int_str_isspace str_digit s"

text \<open>
  \<open>Path(s).name\<close> on POSIX: the last path component, where empty components and
  \<open>.\<close> components do not count; the empty string when there is none.
\<close>

definition path_name :: "str \<Rightarrow> str" where
  "path_name s =
     (case rev (filter (\<lambda>c. c \<noteq> [] \<and> c \<noteq> ustr ''.'') (split_on 47 s)) of
        [] \<Rightarrow> []
      | c # _ \<Rightarrow> c)"

section \<open>Data model\<close>

datatype IconStyle = NAME | ICON | NAME_AND_ICON

text \<open>The fields of libtmux's pane object that the script reads.\<close>

record TmuxPane =
  window_id :: "str option"
  pane_pid :: "str option"
  pane_current_path :: "str option"

record Options =
  shells :: "str list"
  dir_programs :: "str list"
  ignored_programs :: "str list"
  max_name_len :: int
  use_tilde :: bool
  icon_style :: IconStyle
  custom_icons :: "str \<rightharpoonup> str"
  substitute_sets :: "(str \<times> str) list"
  dir_substitute_sets :: "(str \<times> str) list"
  show_program_args :: bool

text \<open>The pane type of \<open>path_utils\<close>: the tmux pane and its resolved program.\<close>

record Pane =
  info :: TmuxPane
  program :: "str option"

section \<open>Foreground Program Resolver\<close>

text \<open>
  \<open>re.sub(USR_BIN_REMOVER[0], USR_BIN_REMOVER[1], s)\<close> with the pattern
  \<open>^(/usr)?/bin/(.+)\<close> and the replacement \<open>\g<2>\<close>. The pattern is anchored at the start of
  the string, so at most one match is replaced; \<open>.+\<close> needs one character that is not a
  newline and then runs to the next newline, and what follows the match is kept: the result is
  the string without the prefix. A string that starts with \<open>/usr/bin/\<close> does not start with
  \<open>/bin/\<close>, so backtracking over the optional group finds nothing new.
\<close>

definition dot_plus :: "str \<Rightarrow> bool" where
  "dot_plus r = (case r of [] \<Rightarrow> False | c # _ \<Rightarrow> c \<noteq> 10)"

definition usr_bin_remover :: "str \<Rightarrow> str" where
  "usr_bin_remover s =
     (case strip_prefix (ustr ''/usr/bin/'') s of
        Some r \<Rightarrow> if dot_plus r then r else s
      | None \<Rightarrow>
          (case strip_prefix (ustr ''/bin/'') s of
             Some r \<Rightarrow> if dot_plus r then r else s
           | None \<Rightarrow> s))"

text \<open>\<open>[x.decode() for x in xs]\<close>: the first undecodable element raises.\<close>

fun decode_all :: "bytes list \<Rightarrow> error + str list" where
  "decode_all [] = Inr []"
| "decode_all (b # bs) =
     (case decode b of
        Inl e \<Rightarrow> Inl e
      | Inr s \<Rightarrow> (case decode_all bs of Inl e \<Rightarrow> Inl e | Inr ss \<Rightarrow> Inr (s # ss)))"

definition parse_shell_command :: "bytes list \<Rightarrow> error + str option" where
  "parse_shell_command shell_cmd =
     (if length shell_cmd = 1 then Inr None
      else
        (case decode_all shell_cmd of
           Inl e \<Rightarrow> Inl e
         | Inr shell_cmd_str \<Rightarrow>
             (case shell_cmd_str of
                s0 # s1 # rest \<Rightarrow> Inr (Some (join (ustr '' '') (path_name s1 # rest)))
              | _ \<Rightarrow> Inl IndexError)))"

text \<open>
  One iteration of the loop of \<open>get_current_program\<close> on a record whose pid matched;
  \<open>prog\<close> is the record without its pid. \<open>Continue\<close> is the source's \<open>continue\<close>.
\<close>

datatype 'a step = Continue | Return 'a

definition is_script :: "bytes list \<Rightarrow> error + bool" where
  "is_script prog =
     (case prog of
        _ # p1 # _ \<Rightarrow>
          (case decode p1 of
             Inl e \<Rightarrow> Inl e
           | Inr s \<Rightarrow> Inr (contains (ustr ''scripts/rename_session_windows.py'') s))
      | _ \<Rightarrow> Inr False)"

definition matched_program :: "bytes list \<Rightarrow> Options \<Rightarrow> error + str option step" where
  "matched_program prog options =
     (case prog of
        [] \<Rightarrow> Inl IndexError
      | p0 # _ \<Rightarrow>
          (case decode p0 of
             Inl e \<Rightarrow> Inl e
           | Inr program_name \<Rightarrow>
               (let program_name_stripped = usr_bin_remover program_name in
                case is_script prog of
                  Inl e \<Rightarrow> Inl e
                | Inr True \<Rightarrow> Inr Continue
                | Inr False \<Rightarrow>
                    if program_name_stripped \<in> set (ignored_programs options) then Inr Continue
                    else if program_name_stripped \<in> set (shells options) then
                      (case parse_shell_command prog of
                         Inl e \<Rightarrow> Inl e
                       | Inr shell_program \<Rightarrow> Inr (Return shell_program))
                    else if \<not> show_program_args options then Inr (Return (Some program_name))
                    else
                      (case decode (join '' '' prog) of
                         Inl e \<Rightarrow> Inl e
                       | Inr s \<Rightarrow> Inr (Return (Some s))))))"

fun find_program :: "bytes list \<Rightarrow> str \<Rightarrow> Options \<Rightarrow> error + str option" where
  "find_program [] pid options = Inr None"
| "find_program (line # running_programs) pid options =
     (case bytes_split line of
        [] \<Rightarrow> Inl IndexError
      | p0 # prog \<Rightarrow>
          (case int_of_bytes p0 of
             None \<Rightarrow> Inl ValueError
           | Some a \<Rightarrow>
               (case int_of_str pid of
                  None \<Rightarrow> Inl ValueError
                | Some b \<Rightarrow>
                    if a = b then
                      (case matched_program prog options of
                         Inl e \<Rightarrow> Inl e
                       | Inr Continue \<Rightarrow> find_program running_programs pid options
                       | Inr (Return r) \<Rightarrow> Inr r)
                    else find_program running_programs pid options)))"

definition get_current_program :: "bytes list \<Rightarrow> TmuxPane \<Rightarrow> Options \<Rightarrow> error + str option" where
  "get_current_program running_programs pane options =
     (case pane_pid pane of
        None \<Rightarrow> Inl ValueError
      | Some pid \<Rightarrow> find_program running_programs pid options)"






text \<open>The two lists that \<open>rename_windows\<close> builds from the resolved panes.\<close>

definition panes_with_programs :: "Pane list \<Rightarrow> Pane list" where
  "panes_with_programs panes_programs = filter (\<lambda>p. program p \<noteq> None) panes_programs"

definition panes_with_dir :: "Pane list \<Rightarrow> Pane list" where
  "panes_with_dir panes_programs = filter (\<lambda>p. program p = None) panes_programs"

text \<open>Predicates on snapshot records, used to state the results.\<close>

definition record_pid :: "bytes \<Rightarrow> int option" where
  "record_pid line = (case bytes_split line of [] \<Rightarrow> None | p0 # _ \<Rightarrow> int_of_bytes p0)"

definition decodable :: "bytes list \<Rightarrow> bool" where
  "decodable bs = (case decode_all bs of Inl _ \<Rightarrow> False | Inr _ \<Rightarrow> True)"

definition well_formed_record :: "bytes \<Rightarrow> bool" where
  "well_formed_record line =
     (case bytes_split line of
        p0 # c # args \<Rightarrow> int_of_bytes p0 \<noteq> None \<and> decodable (c # args)
      | _ \<Rightarrow> False)"

text \<open>The defaults of the \<open>Options\<close> dataclass.\<close>

definition backslash :: str where
  "backslash = [92]"

definition USR_BIN_REMOVER :: "str \<times> str" where
  "USR_BIN_REMOVER = (ustr ''^(/usr)?/bin/(.+)'', backslash @ ustr ''g<2>'')"

definition CUR_SYSTEM_REMOVER :: "str \<times> str" where
  "CUR_SYSTEM_REMOVER = (ustr ''^/run/current-system/sw/bin/(.+)'', backslash @ ustr ''g<1>'')"

definition PROFILE_REMOVER :: "str \<times> str" where
  "PROFILE_REMOVER = (ustr ''^/home/[a-zA-Z]*/.nix-profile/bin/(.+)'', backslash @ ustr ''g<1>'')"

definition NIX_STORE_REMOVER :: "str \<times> str" where
  "NIX_STORE_REMOVER = (ustr ''^/nix/store/[^/]+/.nix-profile/bin/(.+)'', backslash @ ustr ''g<1>'')"

definition default_options :: Options where
  "default_options =
     \<lparr>shells = [ustr ''bash'', ustr ''fish'', ustr ''sh'', ustr ''zsh''],
      dir_programs = [ustr ''nvim'', ustr ''vim'', ustr ''vi'', ustr ''git''],
      ignored_programs = [],
      max_name_len = 20,
      use_tilde = False,
      icon_style = NAME,
      custom_icons = Map.empty,
      substitute_sets =
        [(ustr ''.+ipython([32])'', ustr ''ipython'' @ backslash @ ustr ''g<1>''),
         USR_BIN_REMOVER, CUR_SYSTEM_REMOVER, PROFILE_REMOVER, NIX_STORE_REMOVER,
         (ustr ''(bash) (.+)/(.+[ $])(.+)'', backslash @ ustr ''g<3>'' @ backslash @ ustr ''g<4>''),
         (ustr ''.+poetry shell'', ustr ''poetry'')],
      dir_substitute_sets = [],
      show_program_args = True\<rparr>"

text \<open>A pane used in the examples: window \<open>@1\<close>, process id 42, directory \<open>/home/u\<close>.\<close>

definition example_pane :: TmuxPane where
  "example_pane =
     \<lparr>window_id = Some (ustr ''@1''), pane_pid = Some (ustr ''42''),
      pane_current_path = Some (ustr ''/home/u'')\<rparr>"

section \<open>Label Composer\<close>

text \<open>The built-in icon table: each glyph is one code point of the private use area.\<close>

definition DEFAULT_PROGRAM_ICONS :: "(str \<times> str) list" where
  "DEFAULT_PROGRAM_ICONS =
     [(ustr ''nvim'', [58923]), (ustr ''vim'', [58923]), (ustr ''vi'', [58923]),
      (ustr ''git'', [59138]), (ustr ''python'', [58886]), (ustr ''node'', [59160]),
      (ustr ''npm'', [59160]), (ustr ''yarn'', [59160]), (ustr ''docker'', [59312]),
      (ustr ''kubectl'', [59319]), (ustr ''go'', [58919]), (ustr ''rust'', [59304]),
      (ustr ''cargo'', [59304]), (ustr ''php'', [58888]), (ustr ''ruby'', [59193]),
      (ustr ''java'', [59192]), (ustr ''mvn'', [59192]), (ustr ''gradle'', [59192]),
      (ustr ''bash'', [59298]), (ustr ''zsh'', [59298]), (ustr ''fish'', [59298]),
      (ustr ''sh'', [59298])]"

text \<open>
  \<open>get_program_icon\<close>. The parameter \<open>unicode_escape\<close> stands for the library call
  \<open>icon.encode('utf-8').decode('unicode-escape')\<close>, which may raise; it is consulted only for
  an icon that starts with a backslash and \<open>u\<close>.
\<close>

definition get_program_icon :: "(str \<Rightarrow> error + str) \<Rightarrow> str \<Rightarrow> Options \<Rightarrow> error + str" where
  "get_program_icon unicode_escape program_name options =
     (case str_split program_name of
        [] \<Rightarrow> Inl IndexError
      | w # _ \<Rightarrow>
          (let base_name = last (split_on 47 w);
               base_name = (if 58 \<in> set base_name then hd (split_on 58 base_name) else base_name);
               builtin = (case map_of DEFAULT_PROGRAM_ICONS base_name of
                            None \<Rightarrow> [] | Some i \<Rightarrow> i);
               icon = (case custom_icons options base_name of
                         None \<Rightarrow> builtin
                       | Some i \<Rightarrow> if i \<noteq> [] then i else builtin)
           in if prefix (backslash @ ustr ''u'') icon then unicode_escape icon else Inr icon))"

definition apply_icon_if_in_style :: "(str \<Rightarrow> error + str) \<Rightarrow> str \<Rightarrow> Options \<Rightarrow> error + str" where
  "apply_icon_if_in_style unicode_escape name options =
     (if icon_style options = ICON \<or> icon_style options = NAME_AND_ICON then
        (case get_program_icon unicode_escape name options of
           Inl e \<Rightarrow> Inl e
         | Inr icon \<Rightarrow>
             if icon \<noteq> [] then
               (if icon_style options = ICON then Inr icon else Inr (icon @ ustr '' '' @ name))
             else Inr name)
      else Inr name)"

text \<open>The slice \<open>s[:n]\<close>: a negative \<open>n\<close> counts from the end.\<close>

definition py_slice_to :: "int \<Rightarrow> 'a list \<Rightarrow> 'a list" where
  "py_slice_to n s = (if 0 \<le> n then take (nat n) s else take (length s - nat (- n)) s)"

text \<open>
  \<open>rename_window\<close>. \<open>window_label\<close> is the name it computes (decoration, then the slice);
  the result of \<open>rename_window\<close> is the list of tmux commands it sends, in order.
\<close>

definition window_label :: "(str \<Rightarrow> error + str) \<Rightarrow> str \<Rightarrow> int \<Rightarrow> Options \<Rightarrow> error + str" where
  "window_label unicode_escape window_name max_len options =
     (case apply_icon_if_in_style unicode_escape window_name options of
        Inl e \<Rightarrow> Inl e
      | Inr decorated \<Rightarrow> Inr (py_slice_to max_len decorated))"

definition set_window_tmux_option :: "str option \<Rightarrow> str \<Rightarrow> str \<Rightarrow> str list" where
  "set_window_tmux_option wid option val =
     [ustr ''set-option'', ustr ''-wq'']
     @ (case wid of None \<Rightarrow> [] | Some w \<Rightarrow> [ustr ''-t'', w])
     @ [option, val]"

definition rename_window ::
  "(str \<Rightarrow> error + str) \<Rightarrow> str \<Rightarrow> str \<Rightarrow> int \<Rightarrow> Options \<Rightarrow> error + str list list" where
  "rename_window unicode_escape wid window_name max_len options =
     (case window_label unicode_escape window_name max_len options of
        Inl e \<Rightarrow> Inl e
      | Inr label \<Rightarrow>
          Inr [[ustr ''rename-window'', ustr ''-t'', wid, label],
               set_window_tmux_option (Some wid) (ustr ''automatic-rename-format'') label,
               set_window_tmux_option (Some wid) (ustr ''automatic-rename'') (ustr ''on'')])"

section \<open>Substitution Pipeline\<close>

text \<open>
  \<open>substitute_name\<close>. The parameter \<open>re_sub\<close> stands for \<open>re.sub(pattern, replacement, name)\<close>,
  which may raise.
\<close>

fun substitute_name :: "(str \<Rightarrow> str \<Rightarrow> str \<Rightarrow> error + str) \<Rightarrow> str \<Rightarrow> (str \<times> str) list \<Rightarrow> error + str" where
  "substitute_name re_sub name [] = Inr name"
| "substitute_name re_sub name ((pattern, replacement) # rest) =
     (case re_sub pattern replacement name of
        Inl e \<Rightarrow> Inl e
      | Inr name' \<Rightarrow> substitute_name re_sub name' rest)"

text \<open>
  \<open>s.replace(old, new)\<close>: every occurrence of \<open>old\<close>, found from the left and not overlapping,
  becomes \<open>new\<close>; an empty \<open>old\<close> matches before every character and at the end.
\<close>

function replace_all :: "'a list \<Rightarrow> 'a list \<Rightarrow> 'a list \<Rightarrow> 'a list" where
  "replace_all old new [] = []"
| "replace_all old new (c # cs) =
     (if old \<noteq> [] \<and> prefix old (c # cs)
      then new @ replace_all old new (drop (length old) (c # cs))
      else c # replace_all old new cs)"
  by pat_completeness auto
termination
  by (relation "measure (\<lambda>(old, new, s). length s)") (auto simp: neq_Nil_conv)

definition str_replace :: "'a list \<Rightarrow> 'a list \<Rightarrow> 'a list \<Rightarrow> 'a list" where
  "str_replace old new s =
     (if old = [] then new @ concat (map (\<lambda>c. c # new) s) else replace_all old new s)"

text \<open>
  \<open>re.sub\<close> on the fragment where it is a plain replacement: a pattern without any of the
  special characters \<open>. ^ $ * + ? { } [ ] \ | ( )\<close> and a replacement without a backslash.
\<close>

definition literal_pattern :: "str \<Rightarrow> bool" where
  "literal_pattern p = list_all (\<lambda>c. c \<notin> set (ustr ''.^$*+?{}[]|()'') \<and> c \<noteq> 92) p"

definition plain_replacement :: "str \<Rightarrow> bool" where
  "plain_replacement r = list_all (\<lambda>c. c \<noteq> 92) r"

definition re_sub_literal :: "str \<Rightarrow> str \<Rightarrow> str \<Rightarrow> error + str" where
  "re_sub_literal pattern replacement s =
     (if literal_pattern pattern \<and> plain_replacement replacement
      then Inr (str_replace pattern replacement s)
      else Inl Unmodelled)"

section \<open>Directory Disambiguator\<close>

text \<open>
  Modelled from the spec: \<open>path_utils.get_exclusive_paths\<close>, which the script imports and
  calls and whose source is not at hand. Following the spec's section on the Directory
  Disambiguator: the panes are grouped by the leaf (the final segment) of their directory; for
  each pane the suffix \<open>parent/.../leaf\<close> is accumulated upward from the leaf, one segment at
  a time, and the pane stops extending as soon as its suffix collides with that of no other
  member of its group; a pane that runs out of segments keeps all of them. The result pairs
  every input pane, in order, with its display path. A pane without a directory has no
  segments.
\<close>

definition pane_dir :: "Pane \<Rightarrow> str" where
  "pane_dir p = (case pane_current_path (info p) of None \<Rightarrow> [] | Some d \<Rightarrow> d)"

definition segments :: "str \<Rightarrow> str list" where
  "segments d = filter (\<lambda>c. c \<noteq> []) (split_on 47 d)"

definition leaf :: "str list \<Rightarrow> str" where
  "leaf segs = (if segs = [] then [] else last segs)"

definition suffix_at :: "nat \<Rightarrow> str list \<Rightarrow> str" where
  "suffix_at k segs = join (ustr ''/'') (drop (length segs - k) segs)"

definition collides :: "nat \<Rightarrow> str list \<Rightarrow> str list list \<Rightarrow> bool" where
  "collides k segs others = list_ex (\<lambda>other. suffix_at k other = suffix_at k segs) others"

fun extend :: "nat \<Rightarrow> nat \<Rightarrow> str list \<Rightarrow> str list list \<Rightarrow> str" where
  "extend 0 k segs others = suffix_at k segs"
| "extend (Suc n) k segs others =
     (if collides k segs others then extend n (Suc k) segs others else suffix_at k segs)"

definition display_path :: "str list \<Rightarrow> str list list \<Rightarrow> str" where
  "display_path segs others = extend (length segs - 1) 1 segs others"

definition group_of :: "Pane \<Rightarrow> Pane list \<Rightarrow> Pane list" where
  "group_of p others =
     filter (\<lambda>q. leaf (segments (pane_dir q)) = leaf (segments (pane_dir p))) others"

definition exclusive_path :: "Pane list \<Rightarrow> Pane \<Rightarrow> str" where
  "exclusive_path panes p =
     display_path (segments (pane_dir p))
       (map (\<lambda>q. segments (pane_dir q)) (group_of p (remove1 p panes)))"

definition get_exclusive_paths :: "Pane list \<Rightarrow> (Pane \<times> str) list" where
  "get_exclusive_paths panes = map (\<lambda>p. (p, exclusive_path panes p)) panes"

text \<open>A pane of the examples in a given directory, with no program.\<close>

definition pane_at :: "string \<Rightarrow> Pane" where
  "pane_at d = \<lparr>info = example_pane\<lparr>pane_current_path := Some (ustr d)\<rparr>, program = None\<rparr>"

section \<open>Renaming the windows of a session\<close>

text \<open>\<open>fix_pane_path\<close>; \<open>HOME_DIR\<close> is the expanded home directory, a parameter.\<close>

definition fix_pane_path :: "str \<Rightarrow> Pane \<Rightarrow> Options \<Rightarrow> Pane" where
  "fix_pane_path HOME_DIR pane options =
     (case pane_current_path (info pane) of
        None \<Rightarrow> pane
      | Some path \<Rightarrow>
          (let path' = (if use_tilde options then str_replace HOME_DIR (ustr ''~'') path else path)
           in pane\<lparr>info := (info pane)\<lparr>pane_current_path := Some path'\<rparr>\<rparr>))"

text \<open>
  \<open>get_program_if_dir\<close>: \<open>program[0]\<close> is read in the loop over \<open>dir_programs\<close>, so an empty
  program line raises only when there is a directory program to compare with.
\<close>

fun get_program_if_dir :: "str \<Rightarrow> str list \<Rightarrow> error + str option" where
  "get_program_if_dir program_line [] = Inr None"
| "get_program_if_dir program_line (p # ps) =
     (case str_split program_line of
        [] \<Rightarrow> Inl IndexError
      | w # ws \<Rightarrow>
          if p = w then Inr (Some (join (ustr '' '') (p # ws)))
          else get_program_if_dir program_line ps)"

text \<open>\<open>str(x)\<close> on an optional string.\<close>

definition py_str :: "str option \<Rightarrow> str" where
  "py_str x = (case x of None \<Rightarrow> ustr ''None'' | Some s \<Rightarrow> s)"

text \<open>
  The body of \<open>rename_windows\<close> after the run guard. The parameter \<open>enabled\<close> stands for the
  truth value of \<open>get_window_option(server, window_id, 'enabled', 1)\<close>; the rename hook that
  writes this option is switched off for the run, so one function serves the whole run. Each
  loop yields the tmux commands it sends; the first loop also yields the panes it appends to
  \<open>panes_with_dir\<close>. An exception ends the run.
\<close>

fun program_loop ::
  "(str \<Rightarrow> error + str) \<Rightarrow> (str \<Rightarrow> str \<Rightarrow> str \<Rightarrow> error + str) \<Rightarrow> (str option \<Rightarrow> bool) \<Rightarrow> Options
     \<Rightarrow> Pane list \<Rightarrow> error + (str list list \<times> Pane list)" where
  "program_loop unicode_escape re_sub enabled options [] = Inr ([], [])"
| "program_loop unicode_escape re_sub enabled options (pane # rest) =
     (if \<not> enabled (window_id (info pane))
      then program_loop unicode_escape re_sub enabled options rest
      else
        (case get_program_if_dir (py_str (program pane)) (dir_programs options) of
           Inl e \<Rightarrow> Inl e
         | Inr (Some program_name) \<Rightarrow>
             (case program_loop unicode_escape re_sub enabled options rest of
                Inl e \<Rightarrow> Inl e
              | Inr (cmds, appended) \<Rightarrow>
                  Inr (cmds, pane\<lparr>program := Some program_name\<rparr> # appended))
         | Inr None \<Rightarrow>
             (case substitute_name re_sub (py_str (program pane)) (substitute_sets options) of
                Inl e \<Rightarrow> Inl e
              | Inr name \<Rightarrow>
                  (case rename_window unicode_escape (py_str (window_id (info pane))) name
                          (max_name_len options) options of
                     Inl e \<Rightarrow> Inl e
                   | Inr sent \<Rightarrow>
                       (case program_loop unicode_escape re_sub enabled options rest of
                          Inl e \<Rightarrow> Inl e
                        | Inr (cmds, appended) \<Rightarrow> Inr (sent @ cmds, appended))))))"

definition dir_label ::
  "(str \<Rightarrow> str \<Rightarrow> str \<Rightarrow> error + str) \<Rightarrow> Options \<Rightarrow> Pane \<Rightarrow> str \<Rightarrow> error + str" where
  "dir_label re_sub options p display =
     (case substitute_name re_sub display (dir_substitute_sets options) of
        Inl e \<Rightarrow> Inl e
      | Inr display' \<Rightarrow>
          (case program p of
             None \<Rightarrow> Inr display'
           | Some prog \<Rightarrow>
               (case substitute_name re_sub prog (substitute_sets options) of
                  Inl e \<Rightarrow> Inl e
                | Inr prog' \<Rightarrow> Inr (prog' @ ustr '':'' @ display'))))"

fun dir_loop ::
  "(str \<Rightarrow> error + str) \<Rightarrow> (str \<Rightarrow> str \<Rightarrow> str \<Rightarrow> error + str) \<Rightarrow> (str option \<Rightarrow> bool) \<Rightarrow> Options
     \<Rightarrow> (Pane \<times> str) list \<Rightarrow> error + str list list" where
  "dir_loop unicode_escape re_sub enabled options [] = Inr []"
| "dir_loop unicode_escape re_sub enabled options ((p, display) # rest) =
     (if \<not> enabled (window_id (info p))
      then dir_loop unicode_escape re_sub enabled options rest
      else
        (case dir_label re_sub options p display of
           Inl e \<Rightarrow> Inl e
         | Inr label \<Rightarrow>
             (case rename_window unicode_escape (py_str (window_id (info p))) label
                     (max_name_len options) options of
                Inl e \<Rightarrow> Inl e
              | Inr sent \<Rightarrow>
                  (case dir_loop unicode_escape re_sub enabled options rest of
                     Inl e \<Rightarrow> Inl e
                   | Inr cmds \<Rightarrow> Inr (sent @ cmds)))))"

definition rename_windows ::
  "(str \<Rightarrow> error + str) \<Rightarrow> (str \<Rightarrow> str \<Rightarrow> str \<Rightarrow> error + str) \<Rightarrow> (str option \<Rightarrow> bool) \<Rightarrow> str
     \<Rightarrow> Options \<Rightarrow> Pane list \<Rightarrow> error + (str list list \<times> str list list)" where
  "rename_windows unicode_escape re_sub enabled HOME_DIR options resolved =
     (let panes_programs = map (\<lambda>p. fix_pane_path HOME_DIR p options) resolved in
      case program_loop unicode_escape re_sub enabled options
             (panes_with_programs panes_programs) of
        Inl e \<Rightarrow> Inl e
      | Inr (by_program, appended) \<Rightarrow>
          (case dir_loop unicode_escape re_sub enabled options
                  (get_exclusive_paths (panes_with_dir panes_programs @ appended)) of
             Inl e \<Rightarrow> Inl e
           | Inr by_dir \<Rightarrow> Inr (by_program, by_dir)))"

text \<open>
  To state the results: the windows named in the \<open>rename-window\<close> commands of a command list,
  whether a pane's window is enabled, and whether a pane's program is a directory program.
\<close>

fun renamed :: "str list list \<Rightarrow> str list" where
  "renamed [] = []"
| "renamed (c # cs) =
     (case c of
        [n, t, w, l] \<Rightarrow> if n = ustr ''rename-window'' then w # renamed cs else renamed cs
      | _ \<Rightarrow> renamed cs)"

definition pane_window :: "Pane \<Rightarrow> str" where
  "pane_window p = py_str (window_id (info p))"

definition pane_enabled :: "(str option \<Rightarrow> bool) \<Rightarrow> Pane \<Rightarrow> bool" where
  "pane_enabled enabled p = enabled (window_id (info p))"

definition is_dir_program :: "Options \<Rightarrow> Pane \<Rightarrow> bool" where
  "is_dir_program options p =
     (case get_program_if_dir (py_str (program p)) (dir_programs options) of
        Inr (Some _) \<Rightarrow> True
      | _ \<Rightarrow> False)"

text \<open>
  An example run: window \<open>@1\<close> runs \<open>top\<close>, window \<open>@2\<close> runs the directory program \<open>vim\<close>,
  window \<open>@3\<close> has no program, window \<open>@4\<close> runs \<open>htop\<close> and is disabled.
\<close>

definition example_options :: Options where
  "example_options = default_options\<lparr>substitute_sets := [(ustr ''top'', ustr ''htop'')]\<rparr>"

definition example_enabled :: "str option \<Rightarrow> bool" where
  "example_enabled w = (w \<noteq> Some (ustr ''@4''))"

definition example_resolved :: "Pane list" where
  "example_resolved =
     [\<lparr>info = example_pane, program = Some (ustr ''top'')\<rparr>,
      \<lparr>info = example_pane\<lparr>window_id := Some (ustr ''@2''),
                             pane_current_path := Some (ustr ''/srv/web'')\<rparr>,
       program = Some (ustr ''vim x'')\<rparr>,
      \<lparr>info = example_pane\<lparr>window_id := Some (ustr ''@3''),
                             pane_current_path := Some (ustr ''/home/u/a'')\<rparr>,
       program = None\<rparr>,
      \<lparr>info = example_pane\<lparr>window_id := Some (ustr ''@4'')\<rparr>, program = Some (ustr ''htop'')\<rparr>]"

section \<open>Helper lemmas\<close>

lemmas space_eval = bytes_isspace_def str_isspace_def
lemmas split_eval = bytes_split_def str_split_def
lemmas int_eval = int_of_bytes_def int_of_str_def py_int_def strip_def parse_unsigned_def
  bytes_digit_def str_digit_def int_str_isspace_def max_str_digits_def ustr_def

lemma utf8_2_append:
  "utf8_2 b bs = Some cp \<Longrightarrow> utf8_2 b (bs @ t) = Some cp \<and> drop 1 (bs @ t) = drop 1 bs @ t"
  by (cases bs) (simp_all add: utf8_2_def)

lemma utf8_3_append:
  "utf8_3 b bs = Some cp \<Longrightarrow> utf8_3 b (bs @ t) = Some cp \<and> drop 2 (bs @ t) = drop 2 bs @ t"
proof (cases bs)
  case Nil
  then show "utf8_3 b bs = Some cp \<Longrightarrow> ?thesis" by (simp add: utf8_3_def)
next
  case (Cons c1 r)
  then show "utf8_3 b bs = Some cp \<Longrightarrow> ?thesis" by (cases r) (simp_all add: utf8_3_def)
qed

lemma utf8_4_append:
  "utf8_4 b bs = Some cp \<Longrightarrow> utf8_4 b (bs @ t) = Some cp \<and> drop 3 (bs @ t) = drop 3 bs @ t"
proof (cases bs)
  case Nil
  then show "utf8_4 b bs = Some cp \<Longrightarrow> ?thesis" by (simp add: utf8_4_def)
next
  case (Cons c1 r)
  note c = this
  show "utf8_4 b bs = Some cp \<Longrightarrow> ?thesis"
  proof (cases r)
    case Nil
    with c show "utf8_4 b bs = Some cp \<Longrightarrow> ?thesis" by (simp add: utf8_4_def)
  next
    case (Cons c2 r2)
    with c show "utf8_4 b bs = Some cp \<Longrightarrow> ?thesis" by (cases r2) (simp_all add: utf8_4_def)
  qed
qed

lemma utf8_decode_append:
  "utf8_decode a = Some x \<Longrightarrow> utf8_decode b = Some y \<Longrightarrow> utf8_decode (a @ b) = Some (x @ y)"
proof (induction a arbitrary: x rule: utf8_decode.induct)
  case 1
  then show ?case by simp
next
  case (2 c cs)
  consider (one) "c < 128" | (two) "\<not> c < 128" "194 \<le> c \<and> c < 224"
    | (three) "\<not> c < 128" "\<not> (194 \<le> c \<and> c < 224)" "224 \<le> c \<and> c < 240"
    | (four) "\<not> c < 128" "\<not> (194 \<le> c \<and> c < 224)" "\<not> (224 \<le> c \<and> c < 240)" "240 \<le> c \<and> c < 245"
    | (bad) "\<not> c < 128" "\<not> (194 \<le> c \<and> c < 224)" "\<not> (224 \<le> c \<and> c < 240)" "\<not> (240 \<le> c \<and> c < 245)"
    by blast
  then show ?case
  proof cases
    case one
    from "2.prems"(1) one obtain x' where "utf8_decode cs = Some x'" "x = c # x'" by auto
    with "2.IH"(1) [OF one this(1) "2.prems"(2)] one show ?thesis by simp
  next
    case two
    from "2.prems"(1) two obtain cp x' where
      u: "utf8_2 c cs = Some cp" and d: "utf8_decode (drop 1 cs) = Some x'" and x: "x = cp # x'"
      by (auto split: option.splits)
    from "2.IH"(2) [OF two u d "2.prems"(2)] utf8_2_append [OF u, of b] two x
    show ?thesis by simp
  next
    case three
    from "2.prems"(1) three obtain cp x' where
      u: "utf8_3 c cs = Some cp" and d: "utf8_decode (drop 2 cs) = Some x'" and x: "x = cp # x'"
      by (auto split: option.splits)
    from "2.IH"(3) [OF three u d "2.prems"(2)] utf8_3_append [OF u, of b] three x
    show ?thesis by simp
  next
    case four
    from "2.prems"(1) four obtain cp x' where
      u: "utf8_4 c cs = Some cp" and d: "utf8_decode (drop 3 cs) = Some x'" and x: "x = cp # x'"
      by (auto split: option.splits)
    from "2.IH"(4) [OF four u d "2.prems"(2)] utf8_4_append [OF u, of b] four x
    show ?thesis by simp
  next
    case bad
    with "2.prems"(1) show ?thesis by simp
  qed
qed

lemma decode_append:
  "decode a = Inr x \<Longrightarrow> decode b = Inr y \<Longrightarrow> decode (a @ b) = Inr (x @ y)"
  by (auto simp: decode_def utf8_decode_append split: option.splits)

lemma decode_space: "decode '' '' = Inr (ustr '' '')"
  by (simp add: decode_def ustr_def)

lemma decode_all_Cons:
  "decode_all (b # bs) = Inr ts \<longleftrightarrow>
     (\<exists>t ts'. decode b = Inr t \<and> decode_all bs = Inr ts' \<and> ts = t # ts')"
  by (auto split: sum.splits)

lemma decode_all_Nil: "decode_all [] = Inr ts \<longleftrightarrow> ts = []"
  by auto

lemma decode_join:
  "decode_all cmd = Inr toks \<Longrightarrow> decode (join '' '' cmd) = Inr (join (ustr '' '') toks)"
proof (induction "'' ''" cmd arbitrary: toks rule: join.induct)
  case 1
  then show ?case by (simp add: decode_def)
next
  case (2 x)
  then show ?case by (auto split: sum.splits)
next
  case (3 x y ys)
  from "3.prems" obtain t u us where
    dx: "decode x = Inr t" and dy: "decode_all (y # ys) = Inr (u # us)" and toks: "toks = t # u # us"
    by (auto split: sum.splits)
  have "decode (join '' '' (y # ys)) = Inr (join (ustr '' '') (u # us))"
    using "3.hyps" dy by simp
  then have "decode ('' '' @ join '' '' (y # ys)) = Inr (ustr '' '' @ join (ustr '' '') (u # us))"
    using decode_space by (rule decode_append [rotated])
  then have "decode (x @ '' '' @ join '' '' (y # ys)) =
      Inr (t @ ustr '' '' @ join (ustr '' '') (u # us))"
    using dx by (rule decode_append [rotated])
  then show ?case by (simp add: toks)
qed

lemma find_program_skip:
  assumes "int_of_str pid = Some n"
    and "\<forall>line\<in>set pre. \<exists>a. record_pid line = Some a \<and> a \<noteq> n"
  shows "find_program (pre @ s) pid options = find_program s pid options"
  using assms(2)
proof (induction pre)
  case Nil
  then show ?case by simp
next
  case (Cons line pre)
  then obtain a where a: "record_pid line = Some a" "a \<noteq> n" by auto
  then obtain p0 prog where "bytes_split line = p0 # prog" "int_of_bytes p0 = Some a"
    by (auto simp: record_pid_def split: list.splits)
  with a assms(1) Cons show ?case by simp
qed

lemma is_script_decoded:
  assumes "decode_all prog = Inr toks"
  shows "is_script prog =
    Inr (case toks of _ # t1 # _ \<Rightarrow> contains (ustr ''scripts/rename_session_windows.py'') t1
         | _ \<Rightarrow> False)"
proof (cases prog)
  case Nil
  with assms show ?thesis by (simp add: is_script_def)
next
  case (Cons p0 r)
  note c = this
  show ?thesis
  proof (cases r)
    case Nil
    with c assms show ?thesis by (auto simp: is_script_def split: sum.splits)
  next
    case (Cons p1 r')
    with c assms show ?thesis by (auto simp: is_script_def split: sum.splits)
  qed
qed

lemma parse_shell_command_decoded:
  assumes "decode_all (p0 # args) = Inr (t0 # ts)"
  shows "parse_shell_command (p0 # args) =
           Inr (case ts of [] \<Rightarrow> None | t1 # r \<Rightarrow> Some (join (ustr '' '') (path_name t1 # r)))"
proof (cases args)
  case Nil
  with assms show ?thesis by (auto simp: parse_shell_command_def split: sum.splits)
next
  case (Cons p1 r)
  with assms show ?thesis
    unfolding parse_shell_command_def by (auto split: sum.splits)
qed

lemma matched_program_decoded:
  assumes "decode_all prog = Inr (t0 # ts)"
  shows "matched_program prog options =
    (if (case ts of t1 # _ \<Rightarrow> contains (ustr ''scripts/rename_session_windows.py'') t1
         | [] \<Rightarrow> False) then Inr Continue
     else if usr_bin_remover t0 \<in> set (ignored_programs options) then Inr Continue
     else if usr_bin_remover t0 \<in> set (shells options) then
       Inr (Return (case ts of [] \<Rightarrow> None
                    | t1 # r \<Rightarrow> Some (join (ustr '' '') (path_name t1 # r))))
     else if \<not> show_program_args options then Inr (Return (Some t0))
     else Inr (Return (Some (join (ustr '' '') (t0 # ts)))))"
proof -
  from assms obtain p0 args where prog: "prog = p0 # args" by (cases prog) auto
  from assms prog have d0: "decode p0 = Inr t0" by (auto split: sum.splits)
  have s: "is_script prog =
    Inr (case ts of t1 # _ \<Rightarrow> contains (ustr ''scripts/rename_session_windows.py'') t1
         | [] \<Rightarrow> False)"
    using is_script_decoded [OF assms] by (simp split: list.splits)
  have p: "parse_shell_command prog =
           Inr (case ts of [] \<Rightarrow> None | t1 # r \<Rightarrow> Some (join (ustr '' '') (path_name t1 # r)))"
    using parse_shell_command_decoded assms prog by simp
  have j: "decode (join '' '' prog) = Inr (join (ustr '' '') (t0 # ts))"
    using decode_join [OF assms] .
  show ?thesis
    unfolding matched_program_def prog list.case d0 sum.case Let_def
    unfolding prog [symmetric] s p j
    by simp
qed



lemma find_program_total:
  assumes "int_of_str pid = Some n"
    and "\<forall>line\<in>set s. well_formed_record line"
  shows "\<exists>r. find_program s pid options = Inr r"
  using assms(2)
proof (induction s)
  case Nil
  then show ?case by simp
next
  case (Cons line s)
  then have "well_formed_record line" by simp
  then obtain p0 c args a toks where
    sp: "bytes_split line = p0 # c # args" and a: "int_of_bytes p0 = Some a"
    and d: "decode_all (c # args) = Inr toks"
    by (auto simp: well_formed_record_def decodable_def split: list.splits sum.splits)
  from d obtain t0 ts where toks: "toks = t0 # ts" by (auto split: sum.splits)
  from Cons obtain r where r: "find_program s pid options = Inr r" by auto
  obtain m where m: "matched_program (c # args) options = Inr m"
    using matched_program_decoded [OF d [unfolded toks], of options] by (auto split: if_splits)
  show ?case
    using sp a assms(1) r m by (cases m) auto
qed


lemma replace_all_self: "old \<noteq> [] \<Longrightarrow> replace_all old new old = new"
  by (cases old) auto

lemma replace_all_absent:
  "old \<noteq> [] \<Longrightarrow> \<not> contains old s \<Longrightarrow> replace_all old new s = s"
  by (induction s) auto

lemma substitute_name_append:
  "substitute_name re_sub name (rules1 @ rules2) =
     (case substitute_name re_sub name rules1 of
        Inl e \<Rightarrow> Inl e
      | Inr name' \<Rightarrow> substitute_name re_sub name' rules2)"
  by (induction rules1 arbitrary: name) (auto split: sum.splits)

lemma suffix_at_1: "suffix_at (Suc 0) segs = leaf segs"
proof (cases segs rule: rev_cases)
  case Nil
  then show ?thesis by (simp add: suffix_at_def leaf_def)
next
  case (snoc ys y)
  then show ?thesis by (simp add: suffix_at_def leaf_def)
qed

lemma suffix_at_2: "suffix_at (Suc (Suc 0)) (sp @ [a, x]) = a @ ustr ''/'' @ x"
  by (simp add: suffix_at_def)

lemma collides_set:
  "set others = set others' \<Longrightarrow> collides k segs others = collides k segs others'"
  by (simp add: collides_def list_ex_iff)

lemma extend_set:
  assumes "set others = set others'"
  shows "extend n k segs others = extend n k segs others'"
proof (induction n arbitrary: k)
  case 0
  show ?case by simp
next
  case (Suc n)
  show ?case
    using Suc [of "Suc k"] collides_set [OF assms, of k segs] by simp
qed

lemma extend_alone: "extend n k segs [] = suffix_at k segs"
  by (cases n) (simp_all add: collides_def)

lemma exclusive_path_perm:
  assumes "mset panes' = mset panes"
  shows "exclusive_path panes' p = exclusive_path panes p"
proof -
  have "mset (remove1 p panes') = mset (remove1 p panes)"
    using assms by simp
  then have "set (remove1 p panes') = set (remove1 p panes)"
    by (rule mset_eq_setD)
  then have "set (map (\<lambda>q. segments (pane_dir q)) (group_of p (remove1 p panes')))
      = set (map (\<lambda>q. segments (pane_dir q)) (group_of p (remove1 p panes)))"
    by (simp add: group_of_def)
  then show ?thesis
    unfolding exclusive_path_def display_path_def by (rule extend_set)
qed

lemma exclusive_path_unique_leaf:
  assumes "\<forall>q\<in>set (remove1 p panes).
      leaf (segments (pane_dir q)) \<noteq> leaf (segments (pane_dir p))"
  shows "exclusive_path panes p = leaf (segments (pane_dir p))"
proof -
  have "group_of p (remove1 p panes) = []"
    using assms by (auto simp: group_of_def filter_empty_conv)
  then show ?thesis
    by (simp add: exclusive_path_def display_path_def extend_alone suffix_at_1)
qed

lemma exclusive_path_parent:
  assumes "segments (pane_dir p) = sp @ [a, x]"
    and "set (group_of p (remove1 p panes)) = {q}"
    and "segments (pane_dir q) = sq @ [b, x]"
    and "a \<noteq> b"
  shows "exclusive_path panes p = a @ ustr ''/'' @ x"
proof -
  let ?others = "map (\<lambda>q. segments (pane_dir q)) (group_of p (remove1 p panes))"
  let ?S = "sp @ [a, x]"
  let ?O = "[sq @ [b, x]]"
  have s: "set ?others = set ?O"
    using assms(2,3) by simp
  have c1: "collides (Suc 0) ?S ?O"
    by (simp add: collides_def suffix_at_1 leaf_def)
  have c2: "\<not> collides (Suc (Suc 0)) ?S ?O"
    using assms(4) by (simp add: collides_def suffix_at_2)
  have "extend (Suc (length sp)) (Suc 0) ?S ?O = extend (length sp) (Suc (Suc 0)) ?S ?O"
    using c1 by simp
  also have "\<dots> = suffix_at (Suc (Suc 0)) ?S"
    using c2 by (cases "length sp") simp_all
  finally have e: "extend (Suc (length sp)) (Suc 0) ?S ?O = a @ ustr ''/'' @ x"
    by (simp only: suffix_at_2)
  have "exclusive_path panes p = extend (Suc (length sp)) (Suc 0) ?S ?others"
    by (simp add: exclusive_path_def display_path_def assms(1))
  also have "\<dots> = extend (Suc (length sp)) (Suc 0) ?S ?O"
    using s by (rule extend_set)
  finally show ?thesis
    using e by simp
qed


lemma renamed_append: "renamed (a @ b) = renamed a @ renamed b"
  by (induction a) (auto split: list.splits)

lemma renamed_rename_window:
  "rename_window unicode_escape wid name max_len options = Inr sent \<Longrightarrow> renamed sent = [wid]"
  by (auto simp: rename_window_def set_window_tmux_option_def split: sum.splits)

lemma map_fst_get_exclusive_paths: "map fst (get_exclusive_paths panes) = panes"
  by (simp add: get_exclusive_paths_def comp_def)

lemma program_loop_renamed:
  assumes "program_loop unicode_escape re_sub enabled options ps = Inr (cmds, appended)"
  shows "renamed cmds =
           map pane_window
             (filter (\<lambda>p. pane_enabled enabled p \<and> \<not> is_dir_program options p) ps)
    \<and> map pane_window appended =
           map pane_window
             (filter (\<lambda>p. pane_enabled enabled p \<and> is_dir_program options p) ps)
    \<and> (\<forall>p\<in>set appended. pane_enabled enabled p \<and> program p \<noteq> None)"
  using assms
proof (induction ps arbitrary: cmds appended)
  case Nil
  then show ?case by simp
next
  case (Cons pane rest)
  show ?case
  proof (cases "enabled (window_id (info pane))")
    case False
    with Cons show ?thesis by (simp add: pane_enabled_def)
  next
    case True
    note en = this
    from Cons.prems en obtain d where
      d: "get_program_if_dir (py_str (program pane)) (dir_programs options) = Inr d"
      by (auto split: sum.splits)
    show ?thesis
    proof (cases d)
      case (Some program_name)
      with Cons.prems en d obtain appended' where
        r: "program_loop unicode_escape re_sub enabled options rest = Inr (cmds, appended')"
        and a: "appended = pane\<lparr>program := Some program_name\<rparr> # appended'"
        by (auto split: sum.splits)
      from Cons.IH [OF r] en d Some a show ?thesis
        by (simp add: pane_enabled_def is_dir_program_def pane_window_def)
    next
      case None
      with Cons.prems en d obtain name sent cmds' where
        w: "rename_window unicode_escape (py_str (window_id (info pane))) name
              (max_name_len options) options = Inr sent"
        and r: "program_loop unicode_escape re_sub enabled options rest = Inr (cmds', appended)"
        and c: "cmds = sent @ cmds'"
        by (auto split: sum.splits)
      from Cons.IH [OF r] en d None c renamed_rename_window [OF w] show ?thesis
        by (simp add: pane_enabled_def is_dir_program_def pane_window_def renamed_append)
    qed
  qed
qed

lemma dir_loop_renamed:
  assumes "dir_loop unicode_escape re_sub enabled options xs = Inr cmds"
  shows "renamed cmds = map pane_window (filter (pane_enabled enabled) (map fst xs))"
  using assms
proof (induction xs arbitrary: cmds)
  case Nil
  then show ?case by simp
next
  case (Cons x rest)
  obtain p display where x: "x = (p, display)" by (cases x)
  show ?case
  proof (cases "enabled (window_id (info p))")
    case False
    with Cons x show ?thesis by (simp add: pane_enabled_def)
  next
    case True
    with Cons.prems x obtain label sent cmds' where
      w: "rename_window unicode_escape (py_str (window_id (info p))) label
            (max_name_len options) options = Inr sent"
      and r: "dir_loop unicode_escape re_sub enabled options rest = Inr cmds'"
      and c: "cmds = sent @ cmds'"
      by (auto split: sum.splits)
    from Cons.IH [OF r] True x c renamed_rename_window [OF w] show ?thesis
      by (simp add: pane_enabled_def pane_window_def renamed_append)
  qed
qed

lemma mset_filter_three:
  "mset (map f (filter (\<lambda>p. E p \<and> Q p \<and> \<not> D p) xs))
     + (mset (map f (filter (\<lambda>p. \<not> Q p \<and> E p) xs))
        + mset (map f (filter (\<lambda>p. E p \<and> Q p \<and> D p) xs)))
   = mset (map f (filter E xs))"
  by (induction xs) auto

section \<open>Foreground Program Resolver: results\<close>

text \<open>
  C1 (as amended). For every pane whose process id is present and parses as an integer, and
  every snapshot whose records all carry a process id different from the pane's, the resolver
  returns \<open>None\<close>: no error is signalled when no record matches. The claim as stated asks for
  a resolution failure there.
\<close>

theorem get_current_program_no_match:
  assumes "pane_pid pane = Some pid"
    and "int_of_str pid = Some n"
    and "\<forall>line\<in>set running_programs. \<exists>a. record_pid line = Some a \<and> a \<noteq> n"
  shows "get_current_program running_programs pane options = Inr None"
  using find_program_skip [OF assms(2,3), of "[]" options] assms(1)
  by (simp add: get_current_program_def)

theorem get_current_program_no_match_witness:
  "pane_pid example_pane = Some (ustr ''42'')
   \<and> int_of_str (ustr ''42'') = Some 42
   \<and> record_pid ''41 vim x'' = Some 41
   \<and> record_pid ''7 bash'' = Some 7
   \<and> get_current_program [''41 vim x'', ''7 bash''] example_pane default_options = Inr None"
proof -
  have p: "pane_pid example_pane = Some (ustr ''42'')"
    by (simp add: example_pane_def)
  have i: "int_of_str (ustr ''42'') = Some 42"
    by (simp add: int_eval space_eval)
  have r: "\<forall>line\<in>set [''41 vim x'', ''7 bash'']. \<exists>a. record_pid line = Some a \<and> a \<noteq> 42"
    by (simp add: record_pid_def split_eval int_eval space_eval)
  have e: "record_pid ''41 vim x'' = Some 41 \<and> record_pid ''7 bash'' = Some 7"
    by (simp add: record_pid_def split_eval int_eval space_eval)
  show ?thesis
    using get_current_program_no_match [OF p i r, of default_options] p i e by simp
qed

theorem get_current_program_no_match_counterexample:
  "record_pid ''1 vim'' = Some 1
   \<and> int_of_str (ustr ''42'') = Some 42
   \<and> pane_pid example_pane = Some (ustr ''42'')
   \<and> get_current_program [''1 vim''] example_pane default_options = Inr None"
  by (simp add: record_pid_def get_current_program_def example_pane_def split_eval int_eval space_eval)

text \<open>
  C9 (as amended). For every pane whose process id is absent the resolver raises
  \<open>ValueError\<close> whatever the snapshot holds. It is not the only input on which it raises (a
  matching record with an argument that is not valid UTF-8 raises, and so does a record whose
  first token is not an integer); it does not raise when the pane's
  process id parses as an integer and every record has an integer first token followed by a
  command of at least one token, all of them valid UTF-8.
\<close>

theorem get_current_program_raises:
  "(pane_pid pane = None \<longrightarrow>
      get_current_program running_programs pane options = Inl ValueError)
   \<and> (\<forall>pid n. pane_pid pane = Some pid \<and> int_of_str pid = Some n
         \<and> (\<forall>line\<in>set running_programs. well_formed_record line)
       \<longrightarrow> (\<exists>r. get_current_program running_programs pane options = Inr r))"
  using find_program_total [of _ _ running_programs options]
  by (auto simp: get_current_program_def)

theorem get_current_program_raises_witness:
  "pane_pid (example_pane\<lparr>pane_pid := None\<rparr>) = None
   \<and> get_current_program [''42 vim x''] (example_pane\<lparr>pane_pid := None\<rparr>) default_options
       = Inl ValueError
   \<and> pane_pid example_pane = Some (ustr ''42'')
   \<and> int_of_str (ustr ''42'') = Some 42
   \<and> well_formed_record ''41 bash''
   \<and> well_formed_record ''42 vim x''
   \<and> get_current_program [''41 bash'', ''42 vim x''] example_pane default_options
       = Inr (Some (ustr ''vim x''))"
proof -
  have p: "pane_pid example_pane = Some (ustr ''42'')"
    by (simp add: example_pane_def)
  have i: "int_of_str (ustr ''42'') = Some 42"
    by (simp add: split_eval int_eval space_eval)
  have w: "\<forall>line\<in>set [''41 bash'', ''42 vim x'']. well_formed_record line"
    by (simp add: well_formed_record_def decodable_def decode_def split_eval int_eval space_eval)
  have v: "get_current_program [''41 bash'', ''42 vim x''] example_pane default_options
       = Inr (Some (ustr ''vim x''))"
    by (simp add: get_current_program_def example_pane_def default_options_def
        matched_program_def is_script_def usr_bin_remover_def dot_plus_def decode_def
        split_eval int_eval space_eval)
  from get_current_program_raises [of "example_pane\<lparr>pane_pid := None\<rparr>" "[''42 vim x'']"
      default_options]
  have n: "get_current_program [''42 vim x''] (example_pane\<lparr>pane_pid := None\<rparr>) default_options
       = Inl ValueError"
    by simp
  from get_current_program_raises [of example_pane "[''41 bash'', ''42 vim x'']" default_options]
    p i w
  have "\<exists>r. get_current_program [''41 bash'', ''42 vim x''] example_pane default_options = Inr r"
    by blast
  with p i w v n show ?thesis by simp
qed


theorem get_current_program_raises_counterexample:
  "pane_pid example_pane = Some (ustr ''42'')
   \<and> get_current_program [''42 vim caf'' @ [CHR 0xE9]] example_pane default_options
       = Inl UnicodeDecodeError
   \<and> get_current_program [''abc vim''] example_pane default_options = Inl ValueError"
proof -
  have s: "bytes_split (''42 vim caf'' @ [CHR 0xE9]) = [''42'', ''vim'', ''caf'' @ [CHR 0xE9]]"
    by (simp add: split_eval space_eval)
  have d: "decode (''caf'' @ [CHR 0xE9]) = Inl UnicodeDecodeError"
    by (simp add: decode_def utf8_3_def)
  have v: "decode ''vim'' = Inr (ustr ''vim'')"
    by (simp add: decode_def ustr_def)
  have i: "int_of_bytes ''42'' = Some 42" "int_of_str (ustr ''42'') = Some 42"
    by (simp_all add: int_eval space_eval)
  have "get_current_program [''42 vim caf'' @ [CHR 0xE9]] example_pane default_options
       = Inl UnicodeDecodeError"
    by (simp add: get_current_program_def example_pane_def s [simplified] i
        matched_program_def v d [simplified] is_script_def)
  moreover have "get_current_program [''abc vim''] example_pane default_options = Inl ValueError"
    by (simp add: get_current_program_def example_pane_def split_eval int_eval space_eval)
  ultimately show ?thesis
    by (simp add: example_pane_def)
qed










section \<open>Substitution Pipeline: results\<close>

text \<open>
  C3 (as amended). For every name and every rule list the pipeline applies the rules in list
  order, each by \<open>re.sub\<close> on the output of the one before, without short-circuit: running a
  list is running its first part and then the rest on the result, and an exception of
  \<open>re.sub\<close> ends the run. For non-empty patterns \<open>A\<close> and \<open>B\<close> without special characters,
  with \<open>B\<close> not occurring in \<open>A\<close>, and a replacement \<open>C\<close> without backslash: the rules
  \<open>[(A, B), (B, C)]\<close> turn the string \<open>A\<close> into \<open>C\<close>, and in reversed order into \<open>B\<close>. When \<open>B\<close>
  occurs in \<open>A\<close> the reversed order need not yield a string that contains \<open>B\<close>.
\<close>

theorem substitute_name_pipeline:
  "substitute_name re_sub name (rules1 @ rules2) =
     (case substitute_name re_sub name rules1 of
        Inl e \<Rightarrow> Inl e
      | Inr name' \<Rightarrow> substitute_name re_sub name' rules2)
   \<and> substitute_name re_sub name [(pattern, replacement)] = re_sub pattern replacement name
   \<and> (A \<noteq> [] \<and> B \<noteq> [] \<and> literal_pattern A \<and> literal_pattern B \<and> plain_replacement C
       \<and> \<not> contains B A \<longrightarrow>
         substitute_name re_sub_literal A [(A, B), (B, C)] = Inr C
         \<and> substitute_name re_sub_literal A [(B, C), (A, B)] = Inr B)"
proof -
  have p: "plain_replacement B" if "literal_pattern B"
    using that by (induction B) (auto simp: literal_pattern_def plain_replacement_def)
  have "substitute_name re_sub name [(pattern, replacement)] = re_sub pattern replacement name"
    by (simp split: sum.splits)
  moreover have "substitute_name re_sub_literal A [(A, B), (B, C)] = Inr C
         \<and> substitute_name re_sub_literal A [(B, C), (A, B)] = Inr B"
    if "A \<noteq> []" "B \<noteq> []" "literal_pattern A" "literal_pattern B" "plain_replacement C"
      "\<not> contains B A"
    using that p
    by (simp add: re_sub_literal_def str_replace_def replace_all_self replace_all_absent)
  ultimately show ?thesis
    using substitute_name_append [of re_sub name rules1 rules2] by blast
qed

theorem substitute_name_pipeline_witness:
  "ustr ''py3'' \<noteq> [] \<and> ustr ''python'' \<noteq> []
   \<and> literal_pattern (ustr ''py3'') \<and> literal_pattern (ustr ''python'')
   \<and> plain_replacement (ustr ''snake'')
   \<and> \<not> contains (ustr ''python'') (ustr ''py3'')
   \<and> substitute_name re_sub_literal (ustr ''py3'')
        [(ustr ''py3'', ustr ''python''), (ustr ''python'', ustr ''snake'')] = Inr (ustr ''snake'')
   \<and> substitute_name re_sub_literal (ustr ''py3'')
        [(ustr ''python'', ustr ''snake''), (ustr ''py3'', ustr ''python'')] = Inr (ustr ''python'')"
proof -
  have a: "ustr ''py3'' \<noteq> [] \<and> ustr ''python'' \<noteq> []"
    by (simp add: ustr_def)
  have l: "literal_pattern (ustr ''py3'') \<and> literal_pattern (ustr ''python'')"
    by (simp add: literal_pattern_def ustr_def)
  have r: "plain_replacement (ustr ''snake'')"
    by (simp add: plain_replacement_def ustr_def)
  have c: "\<not> contains (ustr ''python'') (ustr ''py3'')"
    by (simp add: ustr_def)
  from substitute_name_pipeline [of re_sub_literal "[]" "[]" "[]" "[]" "[]" "ustr ''py3''"
      "ustr ''python''" "ustr ''snake''"] a l r c
  show ?thesis by blast
qed

theorem substitute_name_pipeline_counterexample:
  "substitute_name re_sub_literal (ustr ''ab'') [(ustr ''ab'', ustr ''b''), (ustr ''b'', ustr ''c'')]
     = Inr (ustr ''c'')
   \<and> substitute_name re_sub_literal (ustr ''ab'') [(ustr ''b'', ustr ''c''), (ustr ''ab'', ustr ''b'')]
     = Inr (ustr ''ac'')
   \<and> \<not> contains (ustr ''b'') (ustr ''ac'')"
  by (simp add: re_sub_literal_def str_replace_def literal_pattern_def plain_replacement_def
      ustr_def)

section \<open>Directory Disambiguator: results\<close>

text \<open>
  C2. The Directory Disambiguator does not depend on the order of the panes: a permutation of
  the pane list gives every pane the same display path, and so the same pane-to-path mapping.
  A pane whose leaf segment no other pane shares is displayed by exactly that leaf. Two panes
  that share the leaf \<open>x\<close>, alone in their group, with different parent segments \<open>a\<close> and \<open>b\<close>,
  are displayed by \<open>a/x\<close> and \<open>b/x\<close>, which differ.
\<close>

theorem get_exclusive_paths_pure:
  "(mset panes' = mset panes \<longrightarrow>
      mset (get_exclusive_paths panes') = mset (get_exclusive_paths panes)
      \<and> (\<forall>p. exclusive_path panes' p = exclusive_path panes p))
   \<and> (p \<in> set panes
       \<and> (\<forall>q\<in>set (remove1 p panes).
             leaf (segments (pane_dir q)) \<noteq> leaf (segments (pane_dir p))) \<longrightarrow>
         (p, leaf (segments (pane_dir p))) \<in> set (get_exclusive_paths panes))
   \<and> (mset panes = mset (p # q # rest)
       \<and> segments (pane_dir p) = sp @ [a, x] \<and> segments (pane_dir q) = sq @ [b, x] \<and> a \<noteq> b
       \<and> (\<forall>r\<in>set rest. leaf (segments (pane_dir r)) \<noteq> x) \<longrightarrow>
         (p, a @ ustr ''/'' @ x) \<in> set (get_exclusive_paths panes)
         \<and> (q, b @ ustr ''/'' @ x) \<in> set (get_exclusive_paths panes)
         \<and> a @ ustr ''/'' @ x \<noteq> b @ ustr ''/'' @ x)"
proof -
  have one: "mset (get_exclusive_paths panes') = mset (get_exclusive_paths panes)
      \<and> (\<forall>p. exclusive_path panes' p = exclusive_path panes p)"
    if m: "mset panes' = mset panes"
  proof -
    have e: "\<And>p. exclusive_path panes' p = exclusive_path panes p"
      using exclusive_path_perm [OF m] .
    have "mset (get_exclusive_paths panes')
        = image_mset (\<lambda>p. (p, exclusive_path panes' p)) (mset panes')"
      by (simp add: get_exclusive_paths_def)
    also have "\<dots> = image_mset (\<lambda>p. (p, exclusive_path panes p)) (mset panes)"
      by (simp add: e m)
    also have "\<dots> = mset (get_exclusive_paths panes)"
      by (simp add: get_exclusive_paths_def)
    finally show ?thesis using e by simp
  qed
  have two: "(p, leaf (segments (pane_dir p))) \<in> set (get_exclusive_paths panes)"
    if "p \<in> set panes"
      "\<forall>q\<in>set (remove1 p panes). leaf (segments (pane_dir q)) \<noteq> leaf (segments (pane_dir p))"
    using that exclusive_path_unique_leaf [OF that(2)]
    by (auto simp: get_exclusive_paths_def image_iff)
  have three: "(p, a @ ustr ''/'' @ x) \<in> set (get_exclusive_paths panes)
         \<and> (q, b @ ustr ''/'' @ x) \<in> set (get_exclusive_paths panes)
         \<and> a @ ustr ''/'' @ x \<noteq> b @ ustr ''/'' @ x"
    if m: "mset panes = mset (p # q # rest)"
      and sp: "segments (pane_dir p) = sp @ [a, x]"
      and sq: "segments (pane_dir q) = sq @ [b, x]"
      and ab: "a \<noteq> b"
      and r: "\<forall>r\<in>set rest. leaf (segments (pane_dir r)) \<noteq> x"
  proof -
    have lp: "leaf (segments (pane_dir p)) = x" and lq: "leaf (segments (pane_dir q)) = x"
      by (simp_all add: sp sq leaf_def)
    have pq: "p \<noteq> q"
      using sp sq ab by auto
    have "mset (remove1 p panes) = mset (q # rest)"
      using m by simp
    then have "set (remove1 p panes) = set (q # rest)"
      by (rule mset_eq_setD)
    then have gp: "set (group_of p (remove1 p panes)) = {q}"
      using r lp lq by (auto simp: group_of_def)
    have "mset (remove1 q panes) = mset (p # rest)"
      using m pq by simp
    then have "set (remove1 q panes) = set (p # rest)"
      by (rule mset_eq_setD)
    then have gq: "set (group_of q (remove1 q panes)) = {p}"
      using r lp lq by (auto simp: group_of_def)
    have "set panes = set (p # q # rest)"
      using m by (rule mset_eq_setD)
    then have "p \<in> set panes" "q \<in> set panes"
      by simp_all
    moreover have "exclusive_path panes p = a @ ustr ''/'' @ x"
      using exclusive_path_parent [OF sp gp sq ab] .
    moreover have "exclusive_path panes q = b @ ustr ''/'' @ x"
      using exclusive_path_parent [OF sq gq sp ab [symmetric]] .
    ultimately show ?thesis
      using ab by (auto simp: get_exclusive_paths_def image_iff)
  qed
  from one two three show ?thesis by blast
qed

theorem get_exclusive_paths_pure_witness:
  "mset [pane_at ''/home/u/b/x'', pane_at ''/srv/web'', pane_at ''/home/u/a/x'']
     = mset [pane_at ''/home/u/a/x'', pane_at ''/home/u/b/x'', pane_at ''/srv/web'']
   \<and> mset (get_exclusive_paths
              [pane_at ''/home/u/b/x'', pane_at ''/srv/web'', pane_at ''/home/u/a/x''])
       = mset (get_exclusive_paths
                [pane_at ''/home/u/a/x'', pane_at ''/home/u/b/x'', pane_at ''/srv/web''])
   \<and> segments (pane_dir (pane_at ''/home/u/a/x'')) = [ustr ''home'', ustr ''u''] @ [ustr ''a'', ustr ''x'']
   \<and> segments (pane_dir (pane_at ''/home/u/b/x'')) = [ustr ''home'', ustr ''u''] @ [ustr ''b'', ustr ''x'']
   \<and> ustr ''a'' \<noteq> ustr ''b''
   \<and> leaf (segments (pane_dir (pane_at ''/srv/web''))) = ustr ''web''
   \<and> ustr ''web'' \<noteq> ustr ''x''
   \<and> get_exclusive_paths [pane_at ''/home/u/b/x'', pane_at ''/srv/web'', pane_at ''/home/u/a/x'']
       = [(pane_at ''/home/u/b/x'', ustr ''b/x''), (pane_at ''/srv/web'', ustr ''web''),
          (pane_at ''/home/u/a/x'', ustr ''a/x'')]"
proof -
  let ?a = "pane_at ''/home/u/a/x''" and ?b = "pane_at ''/home/u/b/x''"
    and ?w = "pane_at ''/srv/web''"
  let ?ps = "[?b, ?w, ?a]"
  have sa: "segments (pane_dir ?a) = [ustr ''home'', ustr ''u''] @ [ustr ''a'', ustr ''x'']"
    by (simp add: segments_def pane_dir_def pane_at_def split_on_def ustr_def)
  have sb: "segments (pane_dir ?b) = [ustr ''home'', ustr ''u''] @ [ustr ''b'', ustr ''x'']"
    by (simp add: segments_def pane_dir_def pane_at_def split_on_def ustr_def)
  have sw: "segments (pane_dir ?w) = [ustr ''srv'', ustr ''web'']"
    by (simp add: segments_def pane_dir_def pane_at_def split_on_def ustr_def)
  have lw: "leaf (segments (pane_dir ?w)) = ustr ''web''"
    by (simp add: sw leaf_def)
  have la: "leaf (segments (pane_dir ?a)) = ustr ''x''"
    by (simp add: sa leaf_def)
  have lb: "leaf (segments (pane_dir ?b)) = ustr ''x''"
    by (simp add: sb leaf_def)
  have ab: "ustr ''a'' \<noteq> ustr ''b''" and wx: "ustr ''web'' \<noteq> ustr ''x''"
    by (simp_all add: ustr_def)
  have d: "?a \<noteq> ?b" "?a \<noteq> ?w" "?b \<noteq> ?w"
    by (simp_all add: pane_at_def example_pane_def ustr_def)
  have m: "mset ?ps = mset (?a # ?b # [?w])"
    by simp
  have r: "\<forall>r\<in>set [?w]. leaf (segments (pane_dir r)) \<noteq> ustr ''x''"
    using lw wx by simp
  have u: "\<forall>q\<in>set (remove1 ?w ?ps).
      leaf (segments (pane_dir q)) \<noteq> leaf (segments (pane_dir ?w))"
    using d la lb lw wx by simp
  have e1: "exclusive_path ?ps ?w = ustr ''web''"
    using get_exclusive_paths_pure [of ?ps ?ps ?w] u lw d
    by (auto simp: get_exclusive_paths_def)
  have "(?a, ustr ''a'' @ ustr ''/'' @ ustr ''x'') \<in> set (get_exclusive_paths ?ps)
      \<and> (?b, ustr ''b'' @ ustr ''/'' @ ustr ''x'') \<in> set (get_exclusive_paths ?ps)"
    using get_exclusive_paths_pure [of ?ps ?ps ?a ?b "[?w]" "[ustr ''home'', ustr ''u'']"
        "ustr ''a''" "ustr ''x''" "[ustr ''home'', ustr ''u'']" "ustr ''b''"] m sa sb ab r
    by blast
  then have e2: "exclusive_path ?ps ?a = ustr ''a/x''" and e3: "exclusive_path ?ps ?b = ustr ''b/x''"
    using d by (auto simp: get_exclusive_paths_def ustr_def)
  have "get_exclusive_paths ?ps = [(?b, ustr ''b/x''), (?w, ustr ''web''), (?a, ustr ''a/x'')]"
    by (simp add: get_exclusive_paths_def e1 e2 e3)
  moreover have "mset (get_exclusive_paths ?ps) = mset (get_exclusive_paths [?a, ?b, ?w])"
    using get_exclusive_paths_pure [of ?ps "[?a, ?b, ?w]"] m by blast
  ultimately show ?thesis
    using sa sb ab lw wx by simp
qed

section \<open>Label Composer: results\<close>

text \<open>
  C4 (as amended). For every maximum length that is not negative: a composed label longer than
  the maximum is cut to exactly its first \<open>max_name_len\<close> characters, nothing appended, and a
  label of at most that length is left unchanged; this is the name sent in the rename command.
  For a negative maximum the slice drops characters from the end instead.
\<close>

theorem label_truncation:
  assumes "apply_icon_if_in_style unicode_escape name options = Inr composed"
    and "0 \<le> max_len"
  shows "window_label unicode_escape name max_len options = Inr (take (nat max_len) composed)
    \<and> (max_len < int (length composed) \<longrightarrow>
          int (length (take (nat max_len) composed)) = max_len)
    \<and> (int (length composed) \<le> max_len \<longrightarrow> take (nat max_len) composed = composed)
    \<and> rename_window unicode_escape wid name max_len options =
        Inr [[ustr ''rename-window'', ustr ''-t'', wid, take (nat max_len) composed],
             set_window_tmux_option (Some wid) (ustr ''automatic-rename-format'')
               (take (nat max_len) composed),
             set_window_tmux_option (Some wid) (ustr ''automatic-rename'') (ustr ''on'')]"
  using assms by (auto simp: window_label_def rename_window_def py_slice_to_def)

theorem label_truncation_witness:
  "apply_icon_if_in_style Inr (ustr ''abcdef'') default_options = Inr (ustr ''abcdef'')
   \<and> window_label Inr (ustr ''abcdef'') 4 default_options = Inr (ustr ''abcd'')
   \<and> apply_icon_if_in_style Inr (ustr ''abc'') default_options = Inr (ustr ''abc'')
   \<and> window_label Inr (ustr ''abc'') 4 default_options = Inr (ustr ''abc'')"
proof -
  have a: "apply_icon_if_in_style Inr (ustr ''abcdef'') default_options = Inr (ustr ''abcdef'')"
    by (simp add: apply_icon_if_in_style_def default_options_def)
  have b: "apply_icon_if_in_style Inr (ustr ''abc'') default_options = Inr (ustr ''abc'')"
    by (simp add: apply_icon_if_in_style_def default_options_def)
  have "window_label Inr (ustr ''abcdef'') 4 default_options = Inr (take (nat 4) (ustr ''abcdef''))"
    using label_truncation [OF a, of 4] by simp
  moreover
  have "window_label Inr (ustr ''abc'') 4 default_options = Inr (take (nat 4) (ustr ''abc''))"
    using label_truncation [OF b, of 4] by simp
  ultimately show ?thesis
    using a b by (simp add: ustr_def)
qed

theorem label_truncation_counterexample:
  "apply_icon_if_in_style Inr (ustr ''abc'') (default_options\<lparr>max_name_len := - 1\<rparr>)
     = Inr (ustr ''abc'')
   \<and> max_name_len (default_options\<lparr>max_name_len := - 1\<rparr>) < int (length (ustr ''abc''))
   \<and> window_label Inr (ustr ''abc'') (max_name_len (default_options\<lparr>max_name_len := - 1\<rparr>))
        (default_options\<lparr>max_name_len := - 1\<rparr>) = Inr (ustr ''ab'')"
  by (simp add: window_label_def apply_icon_if_in_style_def default_options_def py_slice_to_def
      ustr_def)

text \<open>
  C10 (as amended). Decoration comes before truncation: for every name whose decoration
  succeeds, every icon style and every maximum length that is not negative, the final label is
  the first \<open>max_name_len\<close> characters of the decorated string, and a failed decoration is the
  failure of the whole. In the name-and-icon style with an icon found, the bound covers the
  glyph and the separating space, so that of the name only \<open>max_name_len\<close> less the length of
  the icon less one character remain.
\<close>

theorem icon_before_truncation:
  assumes "0 \<le> max_len"
  shows "(apply_icon_if_in_style unicode_escape name options = Inr decorated \<longrightarrow>
            window_label unicode_escape name max_len options
              = Inr (take (nat max_len) decorated))
    \<and> (apply_icon_if_in_style unicode_escape name options = Inl e \<longrightarrow>
          window_label unicode_escape name max_len options = Inl e)
    \<and> (icon_style options = NAME_AND_ICON
        \<and> get_program_icon unicode_escape name options = Inr icon \<and> icon \<noteq> [] \<longrightarrow>
          window_label unicode_escape name max_len options
            = Inr (take (nat max_len) (icon @ ustr '' '' @ name))
          \<and> (length icon + 1 \<le> nat max_len \<longrightarrow>
               window_label unicode_escape name max_len options
                 = Inr (icon @ ustr '' '' @ take (nat max_len - length icon - 1) name)))"
proof -
  have "take (nat max_len) (icon @ ustr '' '' @ name)
      = icon @ ustr '' '' @ take (nat max_len - length icon - 1) name"
    if "length icon + 1 \<le> nat max_len"
    using that by (cases "nat max_len - length icon") (auto simp: ustr_def)
  then show ?thesis
    using assms by (auto simp: window_label_def apply_icon_if_in_style_def py_slice_to_def)
qed

theorem icon_before_truncation_witness:
  "(0::int) \<le> 5
   \<and> icon_style (default_options\<lparr>icon_style := NAME_AND_ICON\<rparr>) = NAME_AND_ICON
   \<and> get_program_icon Inr (ustr ''vim foo.py'') (default_options\<lparr>icon_style := NAME_AND_ICON\<rparr>)
       = Inr [58923]
   \<and> apply_icon_if_in_style Inr (ustr ''vim foo.py'')
        (default_options\<lparr>icon_style := NAME_AND_ICON\<rparr>) = Inr (58923 # ustr '' vim foo.py'')
   \<and> window_label Inr (ustr ''vim foo.py'') 5 (default_options\<lparr>icon_style := NAME_AND_ICON\<rparr>)
       = Inr (58923 # ustr '' vim'')
   \<and> apply_icon_if_in_style Inr [] (default_options\<lparr>icon_style := ICON\<rparr>) = Inl IndexError
   \<and> window_label Inr [] 5 (default_options\<lparr>icon_style := ICON\<rparr>) = Inl IndexError"
proof -
  let ?o = "default_options\<lparr>icon_style := NAME_AND_ICON\<rparr>"
  have s: "str_split (ustr ''vim foo.py'') = [ustr ''vim'', ustr ''foo.py'']"
    by (simp add: split_eval space_eval ustr_def)
  have l: "last (split_on 47 (ustr ''vim'')) = ustr ''vim''"
    by (simp add: split_on_def ustr_def)
  have m: "map_of DEFAULT_PROGRAM_ICONS (ustr ''vim'') = Some [58923]"
    by (simp add: DEFAULT_PROGRAM_ICONS_def ustr_def)
  have c: "58 \<notin> set (ustr ''vim'')"
    by (simp add: ustr_def)
  have p: "\<not> prefix (backslash @ ustr ''u'') [58923]"
    by (simp add: ustr_def backslash_def)
  have g: "get_program_icon Inr (ustr ''vim foo.py'') ?o = Inr [58923]"
    by (simp add: get_program_icon_def s l m c p default_options_def)
  have i: "icon_style ?o = NAME_AND_ICON"
    by simp
  have d: "apply_icon_if_in_style Inr (ustr ''vim foo.py'') ?o = Inr (58923 # ustr '' vim foo.py'')"
    by (simp add: apply_icon_if_in_style_def g) (simp add: ustr_def)
  have e: "apply_icon_if_in_style Inr [] (default_options\<lparr>icon_style := ICON\<rparr>) = Inl IndexError"
    by (simp add: apply_icon_if_in_style_def get_program_icon_def split_eval)
  have z: "(0::int) \<le> 5"
    by simp
  have "window_label Inr (ustr ''vim foo.py'') 5 ?o
      = Inr (take (nat 5) (58923 # ustr '' vim foo.py''))"
    using icon_before_truncation [OF z, of Inr "ustr ''vim foo.py''" ?o
        "58923 # ustr '' vim foo.py''"] d
    by blast
  then have w: "window_label Inr (ustr ''vim foo.py'') 5 ?o = Inr (58923 # ustr '' vim'')"
    by (simp add: ustr_def)
  have x: "window_label Inr [] 5 (default_options\<lparr>icon_style := ICON\<rparr>) = Inl IndexError"
    using icon_before_truncation [OF z, of Inr "[]" "default_options\<lparr>icon_style := ICON\<rparr>"
        _ IndexError] e
    by simp
  from z i g d w e x show ?thesis by simp
qed

theorem icon_before_truncation_counterexample:
  "apply_icon_if_in_style Inr (ustr ''git'') (default_options\<lparr>icon_style := NAME_AND_ICON\<rparr>)
     = Inr [59138, 32, 103, 105, 116]
   \<and> window_label Inr (ustr ''git'') (- 2) (default_options\<lparr>icon_style := NAME_AND_ICON\<rparr>)
     = Inr [59138, 32, 103]"
proof -
  have s: "str_split (ustr ''git'') = [ustr ''git'']"
    by (simp add: split_eval space_eval ustr_def)
  have l: "last (split_on 47 (ustr ''git'')) = ustr ''git''"
    by (simp add: split_on_def ustr_def)
  have m: "map_of DEFAULT_PROGRAM_ICONS (ustr ''git'') = Some [59138]"
    by (simp add: DEFAULT_PROGRAM_ICONS_def ustr_def)
  have c: "58 \<notin> set (ustr ''git'')"
    by (simp add: ustr_def)
  have p: "\<not> prefix (backslash @ ustr ''u'') [59138]"
    by (simp add: ustr_def backslash_def)
  have g: "get_program_icon Inr (ustr ''git'') (default_options\<lparr>icon_style := NAME_AND_ICON\<rparr>)
      = Inr [59138]"
    by (simp add: get_program_icon_def s l m c p default_options_def)
  have d: "apply_icon_if_in_style Inr (ustr ''git'')
      (default_options\<lparr>icon_style := NAME_AND_ICON\<rparr>) = Inr [59138, 32, 103, 105, 116]"
    by (simp add: apply_icon_if_in_style_def g) (simp add: ustr_def)
  show ?thesis
    by (simp add: d window_label_def py_slice_to_def)
qed

section \<open>Renaming the windows of a session: results\<close>

text \<open>
  C8 (as amended). After resolution the panes with a program and the panes without one are two
  disjoint lists that together hold every pane once. In a run that completes, every pane of an
  enabled window is renamed by exactly one of the two loops: by the program loop when it has a
  program that is not a directory program, by the directory loop otherwise. A pane of a
  disabled window is renamed by neither, so not every pane gets a label.
\<close>

theorem partition_and_single_path:
  assumes "rename_windows unicode_escape re_sub enabled HOME_DIR options resolved
             = Inr (by_program, by_dir)"
    and "panes = map (\<lambda>p. fix_pane_path HOME_DIR p options) resolved"
  shows "set (panes_with_programs panes) \<inter> set (panes_with_dir panes) = {}
    \<and> mset (panes_with_programs panes) + mset (panes_with_dir panes) = mset panes
    \<and> renamed by_program =
        map pane_window
          (filter (\<lambda>p. pane_enabled enabled p \<and> program p \<noteq> None
                        \<and> \<not> is_dir_program options p) panes)
    \<and> renamed by_dir =
        map pane_window (filter (\<lambda>p. program p = None \<and> pane_enabled enabled p) panes)
        @ map pane_window
            (filter (\<lambda>p. pane_enabled enabled p \<and> program p \<noteq> None
                          \<and> is_dir_program options p) panes)
    \<and> mset (renamed by_program) + mset (renamed by_dir)
        = mset (map pane_window (filter (pane_enabled enabled) panes))"
proof -
  from assms obtain appended where
    pl: "program_loop unicode_escape re_sub enabled options (panes_with_programs panes)
           = Inr (by_program, appended)"
    and dl: "dir_loop unicode_escape re_sub enabled options
               (get_exclusive_paths (panes_with_dir panes @ appended)) = Inr by_dir"
    by (auto simp: rename_windows_def Let_def split: sum.splits prod.splits)
  have a: "set (panes_with_programs panes) \<inter> set (panes_with_dir panes) = {}"
    by (auto simp: panes_with_programs_def panes_with_dir_def)
  have b: "mset (panes_with_programs panes) + mset (panes_with_dir panes) = mset panes"
    by (simp add: panes_with_programs_def panes_with_dir_def)
  note p = program_loop_renamed [OF pl]
  have c: "renamed by_program =
        map pane_window
          (filter (\<lambda>p. pane_enabled enabled p \<and> program p \<noteq> None
                        \<and> \<not> is_dir_program options p) panes)"
    using p by (simp add: panes_with_programs_def conj_commute conj_left_commute)
  have e: "filter (pane_enabled enabled) appended = appended"
    using p by (simp add: filter_id_conv)
  have "renamed by_dir =
      map pane_window (filter (pane_enabled enabled) (panes_with_dir panes @ appended))"
    using dir_loop_renamed [OF dl] by (simp add: map_fst_get_exclusive_paths)
  also have "\<dots> =
      map pane_window (filter (\<lambda>p. program p = None \<and> pane_enabled enabled p) panes)
      @ map pane_window appended"
    by (simp add: e panes_with_dir_def conj_commute)
  also have "map pane_window appended =
      map pane_window
        (filter (\<lambda>p. pane_enabled enabled p \<and> program p \<noteq> None
                      \<and> is_dir_program options p) panes)"
    using p by (simp add: panes_with_programs_def conj_commute conj_left_commute)
  finally have d: "renamed by_dir =
        map pane_window (filter (\<lambda>p. program p = None \<and> pane_enabled enabled p) panes)
        @ map pane_window
            (filter (\<lambda>p. pane_enabled enabled p \<and> program p \<noteq> None
                          \<and> is_dir_program options p) panes)" .
  have f: "mset (renamed by_program) + mset (renamed by_dir)
        = mset (map pane_window (filter (pane_enabled enabled) panes))"
    unfolding c d
    using mset_filter_three [of pane_window "pane_enabled enabled" "\<lambda>p. program p \<noteq> None"
        "is_dir_program options" panes]
    by simp
  from a b c d f show ?thesis by blast
qed

theorem partition_and_single_path_witness:
  "\<exists>by_program by_dir.
     rename_windows Inr re_sub_literal example_enabled (ustr ''/home/u'') example_options
       example_resolved = Inr (by_program, by_dir)
     \<and> renamed by_program = [ustr ''@1'']
     \<and> renamed by_dir = [ustr ''@3'', ustr ''@2'']"
proof -
  let ?panes = "map (\<lambda>p. fix_pane_path (ustr ''/home/u'') p example_options) example_resolved"
  have fx: "?panes = example_resolved"
    by (simp add: example_resolved_def fix_pane_path_def example_options_def
        default_options_def example_pane_def)
  have s1: "str_split (ustr ''top'') = [ustr ''top'']"
    and s2: "str_split (ustr ''vim x'') = [ustr ''vim'', ustr ''x'']"
    and s3: "str_split (ustr ''htop'') = [ustr ''htop'']"
    and s4: "str_split (ustr ''None'') = [ustr ''None'']"
    by (simp_all add: split_eval space_eval ustr_def)
  have ne: "ustr ''top'' \<noteq> ustr ''nvim''" "ustr ''top'' \<noteq> ustr ''vim''"
    "ustr ''top'' \<noteq> ustr ''vi''" "ustr ''top'' \<noteq> ustr ''git''"
    "ustr ''vim'' \<noteq> ustr ''nvim''"
    "ustr ''htop'' \<noteq> ustr ''nvim''" "ustr ''htop'' \<noteq> ustr ''vim''"
    "ustr ''htop'' \<noteq> ustr ''vi''" "ustr ''htop'' \<noteq> ustr ''git''"
    "ustr ''None'' \<noteq> ustr ''nvim''" "ustr ''None'' \<noteq> ustr ''vim''"
    "ustr ''None'' \<noteq> ustr ''vi''" "ustr ''None'' \<noteq> ustr ''git''"
    by (simp_all add: ustr_def)
  have d1: "get_program_if_dir (ustr ''top'') (dir_programs example_options) = Inr None"
    using ne by (simp add: example_options_def default_options_def s1)
  have d2: "get_program_if_dir (ustr ''vim x'') (dir_programs example_options)
      = Inr (Some (ustr ''vim x''))"
    using ne by (simp add: example_options_def default_options_def s2) (simp add: ustr_def)
  have d3: "get_program_if_dir (ustr ''htop'') (dir_programs example_options) = Inr None"
    using ne by (simp add: example_options_def default_options_def s3)
  have d4: "get_program_if_dir (ustr ''None'') (dir_programs example_options) = Inr None"
    using ne by (simp add: example_options_def default_options_def s4)
  have su: "substitute_name re_sub_literal (ustr ''top'') (substitute_sets example_options)
      = Inr (ustr ''htop'')"
    by (simp add: example_options_def re_sub_literal_def literal_pattern_def
        plain_replacement_def str_replace_def ustr_def)
  have sv: "substitute_name re_sub_literal (ustr ''vim x'') (substitute_sets example_options)
      = Inr (ustr ''vim x'')"
    by (simp add: example_options_def re_sub_literal_def literal_pattern_def
        plain_replacement_def str_replace_def ustr_def)
  have sd: "\<And>d. substitute_name re_sub_literal d (dir_substitute_sets example_options) = Inr d"
    by (simp add: example_options_def default_options_def)
  have st: "icon_style example_options = NAME"
    by (simp add: example_options_def default_options_def)
  have en: "example_enabled (Some (ustr ''@1''))" "example_enabled (Some (ustr ''@2''))"
    "example_enabled (Some (ustr ''@3''))" "\<not> example_enabled (Some (ustr ''@4''))"
    by (simp_all add: example_enabled_def ustr_def)
  have "\<exists>by_program by_dir.
      rename_windows Inr re_sub_literal example_enabled (ustr ''/home/u'') example_options
        example_resolved = Inr (by_program, by_dir)"
    unfolding rename_windows_def Let_def fx
    by (simp add: example_resolved_def panes_with_programs_def panes_with_dir_def
        example_pane_def py_str_def en d1 d2 d3 su sv sd st dir_label_def
        rename_window_def window_label_def apply_icon_if_in_style_def
        get_exclusive_paths_def)
  then obtain by_program by_dir where
    r: "rename_windows Inr re_sub_literal example_enabled (ustr ''/home/u'') example_options
          example_resolved = Inr (by_program, by_dir)"
    by blast
  note t = partition_and_single_path [OF r refl, unfolded fx]
  have w: "renamed by_program = [ustr ''@1'']"
    using t
    by (simp add: example_resolved_def pane_enabled_def example_pane_def en d1 d2 d3
        is_dir_program_def py_str_def pane_window_def)
  have v: "renamed by_dir = [ustr ''@3'', ustr ''@2'']"
    using t
    by (simp add: example_resolved_def pane_enabled_def example_pane_def en d1 d2 d3
        is_dir_program_def py_str_def pane_window_def)
  from r w v show ?thesis by blast
qed

theorem partition_and_single_path_counterexample:
  "\<not> example_enabled (Some (ustr ''@4''))
   \<and> rename_windows Inr re_sub_literal example_enabled (ustr ''/home/u'') example_options
        [\<lparr>info = example_pane\<lparr>window_id := Some (ustr ''@4'')\<rparr>,
          program = Some (ustr ''htop'')\<rparr>] = Inr ([], [])"
proof -
  have en: "\<not> example_enabled (Some (ustr ''@4''))"
    by (simp add: example_enabled_def)
  have "rename_windows Inr re_sub_literal example_enabled (ustr ''/home/u'') example_options
        [\<lparr>info = example_pane\<lparr>window_id := Some (ustr ''@4'')\<rparr>,
          program = Some (ustr ''htop'')\<rparr>] = Inr ([], [])"
    by (simp add: rename_windows_def fix_pane_path_def example_options_def default_options_def
        example_pane_def panes_with_programs_def panes_with_dir_def en
        get_exclusive_paths_def)
  with en show ?thesis by simp
qed

end
